theory Spec2Isabelle
  imports Main
begin

section \<open>Python values, exceptions and truthiness\<close>

text \<open>
  The embedding follows \<^verbatim>\<open>archr/targets/docker_target.py\<close>. Python strings and byte
  strings are character lists. An attribute that may hold \<^verbatim>\<open>None\<close> is an
  \<open>option\<close>. An exception is a value of \<open>error\<close>; a method that can raise returns
  \<open>error + 'a\<close>, with \<open>Inl\<close> for the exception.
\<close>

type_synonym bytes = string

datatype error =
    AttributeError | IndexError | KeyError | TypeError | AssertionError | ValueError
  | OSError | RecursionError | ImageNotFound | NotFound | APIError

text \<open>
  Truthiness of an optional sequence: \<^verbatim>\<open>None\<close> and the empty sequence are false.
  \<open>py_or x y\<close> is the expression \<^verbatim>\<open>x or y\<close>, and \<open>or_empty x\<close> is
  \<^verbatim>\<open>(x or [ ])\<close>.
\<close>

definition truthy :: "'a list option \<Rightarrow> bool" where
  "truthy x = (case x of None \<Rightarrow> False | Some v \<Rightarrow> v \<noteq> [])"

definition py_or :: "'a list option \<Rightarrow> 'a list option \<Rightarrow> 'a list option" where
  "py_or x y = (if truthy x then x else y)"

definition or_empty :: "'a list option \<Rightarrow> 'a list" where
  "or_empty x = (case py_or x (Some []) of None \<Rightarrow> [] | Some v \<Rightarrow> v)"

section \<open>String and path functions of the standard library\<close>

text \<open>\<^verbatim>\<open>s.startswith(p)\<close> and \<^verbatim>\<open>s.lstrip("/")\<close>.\<close>

definition startswith :: "string \<Rightarrow> string \<Rightarrow> bool" where
  "startswith s p = (take (length p) s = p)"

definition lstrip_slash :: "string \<Rightarrow> string" where
  "lstrip_slash s = dropWhile (\<lambda>c. c = CHR ''/'') s"

definition rstrip_slash :: "string \<Rightarrow> string" where
  "rstrip_slash s = rev (dropWhile (\<lambda>c. c = CHR ''/'') (rev s))"

text \<open>
  \<^verbatim>\<open>posixpath.join(a, b)\<close> with two arguments: an absolute \<open>b\<close> replaces \<open>a\<close>; otherwise
  \<open>b\<close> is appended, after a separator unless \<open>a\<close> is empty or already ends with one.
\<close>

definition os_path_join :: "string \<Rightarrow> string \<Rightarrow> string" where
  "os_path_join a b =
     (if startswith b ''/'' then b
      else if a = [] \<or> last a = CHR ''/'' then a @ b
      else a @ ''/'' @ b)"

text \<open>
  \<^verbatim>\<open>posixpath.basename(p)\<close> is what follows the last separator; \<^verbatim>\<open>posixpath.dirname(p)\<close>
  is what precedes it (separator included), with trailing separators stripped unless it
  consists of separators only.
\<close>

definition os_path_basename :: "string \<Rightarrow> string" where
  "os_path_basename p = rev (takeWhile (\<lambda>c. c \<noteq> CHR ''/'') (rev p))"

definition os_path_dirname :: "string \<Rightarrow> string" where
  "os_path_dirname p =
     (let head = rev (dropWhile (\<lambda>c. c \<noteq> CHR ''/'') (rev p))
      in if head \<noteq> [] \<and> (\<exists>c \<in> set head. c \<noteq> CHR ''/'') then rstrip_slash head else head)"

text \<open>\<^verbatim>\<open>s.split("/")\<close> and \<^verbatim>\<open>"/".join(xs)\<close>.\<close>

fun split_slash_acc :: "string \<Rightarrow> string \<Rightarrow> string list" where
  "split_slash_acc acc [] = [rev acc]"
| "split_slash_acc acc (c # cs) =
     (if c = CHR ''/'' then rev acc # split_slash_acc [] cs else split_slash_acc (c # acc) cs)"

definition split_slash :: "string \<Rightarrow> string list" where
  "split_slash s = split_slash_acc [] s"

fun join_slash :: "string list \<Rightarrow> string" where
  "join_slash [] = []"
| "join_slash [x] = x"
| "join_slash (x # y # ys) = x @ ''/'' @ join_slash (y # ys)"

section \<open>The Docker objects the target holds\<close>

text \<open>
  \<open>config\<close> is \<^verbatim>\<open>image.attrs['Config']\<close>: each of the three entries read by \<^verbatim>\<open>build\<close>
  is a list of strings or JSON \<^verbatim>\<open>null\<close>. A container carries its id and the
  \<^verbatim>\<open>MergedDir\<close> entry of its graph driver data, which only the overlay drivers report.
\<close>

record config =
  Entrypoint :: "string list option"
  Cmd :: "string list option"
  Env :: "string list option"

record docker_image =
  Config :: config

record docker_container =
  cid :: string
  MergedDir :: "string option"

text \<open>
  The attributes of \<^verbatim>\<open>DockerImageTarget\<close> that its methods read or assign. \<open>image_obj\<close>
  is \<^verbatim>\<open>self.image\<close>.
\<close>

record target =
  image_id :: string
  target_args :: "string list option"
  target_path :: "string option"
  target_env :: "string list option"
  image_obj :: "docker_image option"
  container :: "docker_container option"

text \<open>\<^verbatim>\<open>__init__\<close> (with \<^verbatim>\<open>pull=False\<close>): the arguments are stored, nothing is built.\<close>

definition init :: "string \<Rightarrow> string list option \<Rightarrow> string option \<Rightarrow> string list option \<Rightarrow> target" where
  "init image_name args path env =
     \<lparr>image_id = image_name, target_args = args, target_path = path, target_env = env,
      image_obj = None, container = None\<rparr>"

section \<open>The world outside the target\<close>

text \<open>
  What the Docker daemon and the host hold, as far as the methods depend on it:
  the daemon's images by name; for the target's container, the parsed tar archive that
  \<^verbatim>\<open>get_archive\<close> returns for a path; the host's directories, mount points and files;
  the contents of in-memory writable objects; the names \<^verbatim>\<open>tempfile.mktemp()\<close> returns,
  in order; and the host paths that cannot be opened for writing.
\<close>

datatype member_type = REGTYPE | DIRTYPE | SYMTYPE | LNKTYPE | SPECIALTYPE

record tar_member =
  name :: string
  tartype :: member_type
  data :: bytes
  linkname :: string

record world =
  images :: "(string \<times> docker_image) list"
  archives :: "(string \<times> tar_member list) list"
  dirs :: "string list"
  mounts :: "string list"
  files :: "(string \<times> bytes) list"
  sinks :: "(nat \<times> bytes) list"
  tmp_names :: "string list"
  unwritable :: "string list"

section \<open>Lifecycle\<close>

text \<open>
  A method returns its outcome together with the target and the world as it leaves them,
  also when it raises: assignments made before the exception stay.

  \<^verbatim>\<open>build\<close>: \<^verbatim>\<open>images.get\<close> raises \<^verbatim>\<open>ImageNotFound\<close> for an unknown image. The three
  defaults are selected with \<^verbatim>\<open>or\<close>; \<^verbatim>\<open>self.target_args[0]\<close> is evaluated only when
  \<^verbatim>\<open>self.target_path\<close> is false, and raises \<^verbatim>\<open>IndexError\<close> on an empty list.
\<close>

definition build :: "target \<Rightarrow> world \<Rightarrow> (error + unit) \<times> target \<times> world" where
  "build self w =
     (case map_of (images w) (image_id self) of
        None \<Rightarrow> (Inl ImageNotFound, self, w)
      | Some img \<Rightarrow>
          let self1 = self\<lparr>image_obj := Some img\<rparr>;
              self2 = self1\<lparr>target_args :=
                        py_or (target_args self1)
                          (Some (or_empty (Entrypoint (Config img)) @ or_empty (Cmd (Config img))))\<rparr>;
              self3 = self2\<lparr>target_env := py_or (target_env self2) (Env (Config img))\<rparr>
          in if truthy (target_path self3) then (Inr (), self3, w)
             else (case target_args self3 of
                     None \<Rightarrow> (Inl TypeError, self3, w)
                   | Some [] \<Rightarrow> (Inl IndexError, self3, w)
                   | Some (a # _) \<Rightarrow> (Inr (), self3\<lparr>target_path := Some a\<rparr>, w)))"

section \<open>Execution\<close>

text \<open>
  \<^verbatim>\<open>subprocess.Popen\<close> is given an argument vector; the handle keeps it. \<^verbatim>\<open>run_command\<close>
  asserts the container, selects the command with \<^verbatim>\<open>or\<close>, adds prefix and suffix when
  they are true, wraps with \<^verbatim>\<open>setarch\<close> when \<^verbatim>\<open>aslr\<close> is false, and passes each entry
  of \<^verbatim>\<open>target_env\<close> with \<^verbatim>\<open>-e\<close>. Concatenating or iterating \<^verbatim>\<open>None\<close> raises
  \<^verbatim>\<open>TypeError\<close>.
\<close>

record popen =
  argv :: "string list"

definition run_command ::
  "string list option \<Rightarrow> string list option \<Rightarrow> string list option \<Rightarrow> bool \<Rightarrow> target
     \<Rightarrow> error + popen" where
  "run_command args args_prefix args_suffix aslr self =
     (case container self of
        None \<Rightarrow> Inl AssertionError
      | Some c \<Rightarrow>
         (case py_or args (target_args self) of
            None \<Rightarrow> Inl TypeError
          | Some command_args0 \<Rightarrow>
              let command_args1 =
                    (if truthy args_prefix then or_empty args_prefix @ command_args0
                     else command_args0);
                  command_args2 =
                    (if truthy args_suffix then command_args1 @ or_empty args_suffix
                     else command_args1);
                  command_args3 =
                    (if \<not> aslr then [''setarch'', ''x86_64'', ''-R''] @ command_args2
                     else command_args2)
              in (case target_env self of
                    None \<Rightarrow> Inl TypeError
                  | Some env \<Rightarrow>
                      Inr \<lparr>argv = [''docker'', ''exec'', ''-i'']
                                   @ concat (map (\<lambda>e. [''-e'', e]) env)
                                   @ [cid c] @ command_args3\<rparr>)))"

text \<open>
  \<^verbatim>\<open>run_context\<close>: the process is started, the scope body runs with the handle, then
  \<^verbatim>\<open>p.wait()\<close> on normal exit, and \<^verbatim>\<open>p.terminate()\<close> in the \<^verbatim>\<open>finally\<close> clause.
  The result carries the calls made on the handle, in order. What \<^verbatim>\<open>wait\<close> and
  \<^verbatim>\<open>terminate\<close> raise, if anything, is given; an exception raised in \<^verbatim>\<open>finally\<close>
  replaces the one being propagated.
\<close>

datatype event = Wait popen | Terminate popen

definition run_context ::
  "string list option \<Rightarrow> string list option \<Rightarrow> string list option \<Rightarrow> bool \<Rightarrow> target
     \<Rightarrow> (popen \<Rightarrow> error option) \<Rightarrow> error option \<Rightarrow> error option
     \<Rightarrow> (error + unit) \<times> event list" where
  "run_context args args_prefix args_suffix aslr self body wait_raises terminate_raises =
     (case run_command args args_prefix args_suffix aslr self of
        Inl e \<Rightarrow> (Inl e, [])
      | Inr p \<Rightarrow>
          let (pending, calls) =
                (case body p of
                   Some e \<Rightarrow> (Some e, [])
                 | None \<Rightarrow> (wait_raises, [Wait p]))
          in (case terminate_raises of
                Some e' \<Rightarrow> (Inl e', calls @ [Terminate p])
              | None \<Rightarrow>
                  (case pending of
                     Some e \<Rightarrow> (Inl e, calls @ [Terminate p])
                   | None \<Rightarrow> (Inr (), calls @ [Terminate p]))))"

section \<open>Host operations used by the lifecycle\<close>

text \<open>
  \<^verbatim>\<open>os.makedirs\<close> raises \<^verbatim>\<open>OSError\<close> when the directory exists. \<^verbatim>\<open>os.rmdir\<close> raises
  \<^verbatim>\<open>OSError\<close> when the directory does not exist or is a mount point. The two
  \<^verbatim>\<open>os.system\<close> calls never raise: a bind mount takes effect when the mount point
  exists, an unmount removes the topmost mount of the path, if any.
\<close>

definition os_makedirs :: "string \<Rightarrow> world \<Rightarrow> error + world" where
  "os_makedirs p w = (if p \<in> set (dirs w) then Inl OSError else Inr (w\<lparr>dirs := p # dirs w\<rparr>))"

definition os_rmdir :: "string \<Rightarrow> world \<Rightarrow> error + world" where
  "os_rmdir p w =
     (if p \<notin> set (dirs w) then Inl OSError
      else if p \<in> set (mounts w) then Inl OSError
      else Inr (w\<lparr>dirs := removeAll p (dirs w)\<rparr>))"

definition os_system_mount :: "string \<Rightarrow> string \<Rightarrow> world \<Rightarrow> world" where
  "os_system_mount src dst w = (if dst \<in> set (dirs w) then w\<lparr>mounts := dst # mounts w\<rparr> else w)"

definition os_system_umount :: "string \<Rightarrow> world \<Rightarrow> world" where
  "os_system_umount p w = w\<lparr>mounts := remove1 p (mounts w)\<rparr>"

text \<open>The property \<^verbatim>\<open>local_path\<close> reads \<^verbatim>\<open>self.container.id\<close>.\<close>

definition local_path :: "target \<Rightarrow> error + string" where
  "local_path self =
     (case container self of
        None \<Rightarrow> Inl AttributeError
      | Some c \<Rightarrow> Inr (''/tmp/archr_mounts/'' @ cid c))"

text \<open>The property \<^verbatim>\<open>_merged_path\<close>.\<close>

definition merged_path :: "target \<Rightarrow> error + string" where
  "merged_path self =
     (case container self of
        None \<Rightarrow> Inl AttributeError
      | Some c \<Rightarrow> (case MergedDir c of None \<Rightarrow> Inl KeyError | Some d \<Rightarrow> Inr d))"

text \<open>
  \<^verbatim>\<open>start\<close>: \<open>run_reply\<close> is what \<^verbatim>\<open>containers.run\<close> returns or raises. The handle is
  assigned, the mount directory is created (an \<^verbatim>\<open>OSError\<close> is swallowed), and the
  merged directory is bind-mounted on it.
\<close>

definition start :: "error + docker_container \<Rightarrow> target \<Rightarrow> world \<Rightarrow> (error + unit) \<times> target \<times> world" where
  "start run_reply self w =
     (case run_reply of
        Inl e \<Rightarrow> (Inl e, self, w)
      | Inr c \<Rightarrow>
          let self1 = self\<lparr>container := Some c\<rparr> in
          (case local_path self1 of
             Inl e \<Rightarrow> (Inl e, self1, w)
           | Inr lp \<Rightarrow>
               let w1 = (case os_makedirs lp w of Inl _ \<Rightarrow> w | Inr w' \<Rightarrow> w') in
               (case merged_path self1 of
                  Inl e \<Rightarrow> (Inl e, self1, w1)
                | Inr md \<Rightarrow> (Inr (), self1, os_system_mount md lp w1))))"

text \<open>
  \<^verbatim>\<open>stop\<close>: \<open>kill_reply\<close> is what \<^verbatim>\<open>container.kill()\<close> raises, if anything. A container
  object is always true, so \<^verbatim>\<open>if self.container\<close> tests for \<^verbatim>\<open>None\<close>. No attribute of
  \<^verbatim>\<open>self\<close> is assigned.
\<close>

definition stop :: "error option \<Rightarrow> target \<Rightarrow> world \<Rightarrow> (error + unit) \<times> target \<times> world" where
  "stop kill_reply self w =
     (case (if container self \<noteq> None then kill_reply else None) of
        Some e \<Rightarrow> (Inl e, self, w)
      | None \<Rightarrow>
          (case local_path self of
             Inl e \<Rightarrow> (Inl e, self, w)
           | Inr lp \<Rightarrow>
               let w1 = os_system_umount lp w in
               (case os_rmdir lp w1 of
                  Inl e \<Rightarrow> (Inl e, self, w1)
                | Inr w2 \<Rightarrow> (Inr (), self, w2))))"

text \<open>
  \<^verbatim>\<open>remove\<close>: \<open>remove_reply\<close> is what \<^verbatim>\<open>container.remove(force=True)\<close> raises, if
  anything.
\<close>

definition remove :: "error option \<Rightarrow> target \<Rightarrow> world \<Rightarrow> (error + unit) \<times> target \<times> world" where
  "remove remove_reply self w =
     (case (if container self \<noteq> None then remove_reply else None) of
        Some e \<Rightarrow> (Inl e, self, w)
      | None \<Rightarrow> (Inr (), self, w))"

section \<open>Path resolution\<close>

text \<open>
  \<^verbatim>\<open>posixpath.normpath\<close>: empty and \<^verbatim>\<open>.\<close> components are dropped, \<^verbatim>\<open>..\<close> removes the
  component before it (at the root it is dropped, at the start of a relative path it is
  kept). The accumulator holds the kept components, last first.
\<close>

fun normpath_comps :: "bool \<Rightarrow> string list \<Rightarrow> string list \<Rightarrow> string list" where
  "normpath_comps initial_slashes new_comps [] = rev new_comps"
| "normpath_comps initial_slashes new_comps (c # comps) =
     (if c = [] \<or> c = ''.'' then normpath_comps initial_slashes new_comps comps
      else if c \<noteq> ''..'' \<or> (\<not> initial_slashes \<and> new_comps = [])
                \<or> (new_comps \<noteq> [] \<and> hd new_comps = ''..'')
      then normpath_comps initial_slashes (c # new_comps) comps
      else if new_comps \<noteq> [] then normpath_comps initial_slashes (tl new_comps) comps
      else normpath_comps initial_slashes new_comps comps)"

definition os_path_normpath :: "string \<Rightarrow> string" where
  "os_path_normpath path =
     (if path = [] then ''.''
      else
        let initial_slashes =
              (if startswith path ''/''
               then (if startswith path ''//'' \<and> \<not> startswith path ''///'' then 2 else 1)
               else (0::nat));
            p = replicate initial_slashes (CHR ''/'')
                  @ join_slash (normpath_comps (initial_slashes \<noteq> 0) [] (split_slash path))
        in if p = [] then ''.'' else p)"

text \<open>
  \<^verbatim>\<open>os.path.realpath\<close> depends on the symbolic links of the host, so
  \<^verbatim>\<open>resolve_local_path\<close> takes it as a parameter. On a host without symbolic links it
  makes the path absolute (relative to the working directory \<open>cwd\<close>) and normalises it
  lexically: that instance is \<open>realpath_nolinks\<close>.
\<close>

definition realpath_nolinks :: "string \<Rightarrow> string \<Rightarrow> string" where
  "realpath_nolinks cwd p =
     ''/'' @ join_slash (normpath_comps True []
                (split_slash (if startswith p ''/'' then p else os_path_join cwd p)))"

definition resolve_local_path :: "(string \<Rightarrow> string) \<Rightarrow> target \<Rightarrow> string \<Rightarrow> error + string" where
  "resolve_local_path os_path_realpath self path =
     (case local_path self of
        Inl e \<Rightarrow> Inl e
      | Inr lp \<Rightarrow>
          let path1 = (if \<not> startswith path lp then os_path_join lp (lstrip_slash path) else path);
              realpath = os_path_realpath path1
          in Inr (if \<not> startswith realpath lp then os_path_join lp (lstrip_slash realpath)
                  else realpath))"

text \<open>
  Containment as the specification words it: \<open>p\<close> denotes \<open>root\<close> or something beneath
  it, compared component by component after lexical normalisation.
\<close>

definition path_components :: "string \<Rightarrow> string list" where
  "path_components p = normpath_comps (startswith p ''/'') [] (split_slash p)"

definition path_within :: "string \<Rightarrow> string \<Rightarrow> bool" where
  "path_within root p =
     (take (length (path_components root)) (path_components p) = path_components root)"

section \<open>Retrieval\<close>

text \<open>
  \<^verbatim>\<open>retrieve_tarball_contents\<close>: \<^verbatim>\<open>get_archive\<close> raises \<^verbatim>\<open>NotFound\<close> for a path the
  container does not have. The stream is kept in parsed form, as the member list that
  \<^verbatim>\<open>tarfile.open\<close> reads from it.
\<close>

definition retrieve_tarball_contents :: "string \<Rightarrow> target \<Rightarrow> world \<Rightarrow> error + tar_member list" where
  "retrieve_tarball_contents path self w =
     (case container self of
        None \<Rightarrow> Inl AttributeError
      | Some c \<Rightarrow>
          (case map_of (archives w) path of
             None \<Rightarrow> Inl NotFound
           | Some members \<Rightarrow> Inr members))"

text \<open>
  \<^verbatim>\<open>TarFile.getmember\<close> returns the last member of that name. \<^verbatim>\<open>TarFile.extractfile\<close>
  gives a reader for a regular member, follows a link to its target in the archive
  (\<^verbatim>\<open>KeyError\<close> when there is none; a hard link looks among the members before it),
  and returns \<^verbatim>\<open>None\<close> for a directory or a special file. Links may form a cycle;
  the recursion stops at the interpreter's limit.
\<close>

definition getmember :: "tar_member list \<Rightarrow> string \<Rightarrow> (nat \<times> tar_member) option" where
  "getmember members n = find (\<lambda>(i, m). name m = n) (rev (enumerate 0 members))"

definition find_link_target :: "tar_member list \<Rightarrow> nat \<times> tar_member \<Rightarrow> (nat \<times> tar_member) option" where
  "find_link_target members im =
     (let (i, tarinfo) = im in
      if tartype tarinfo = SYMTYPE then
        find (\<lambda>(j, m). os_path_normpath (name m) =
                os_path_normpath (join_slash (filter (\<lambda>s. s \<noteq> [])
                   [os_path_dirname (name tarinfo), linkname tarinfo])))
          (rev (enumerate 0 members))
      else
        find (\<lambda>(j, m). os_path_normpath (name m) = os_path_normpath (linkname tarinfo))
          (rev (enumerate 0 (take i members))))"

fun extractfile_member :: "nat \<Rightarrow> tar_member list \<Rightarrow> nat \<times> tar_member \<Rightarrow> error + bytes option" where
  "extractfile_member 0 members im = Inl RecursionError"
| "extractfile_member (Suc depth) members (i, tarinfo) =
     (if tartype tarinfo = REGTYPE then Inr (Some (data tarinfo))
      else if tartype tarinfo = LNKTYPE \<or> tartype tarinfo = SYMTYPE then
        (case find_link_target members (i, tarinfo) of
           None \<Rightarrow> Inl KeyError
         | Some target \<Rightarrow> extractfile_member depth members target)
      else Inr None)"

definition recursion_limit :: nat where
  "recursion_limit = 1000"

definition extractfile :: "tar_member list \<Rightarrow> string \<Rightarrow> error + bytes option" where
  "extractfile members n =
     (case getmember members n of
        None \<Rightarrow> Inl KeyError
      | Some im \<Rightarrow> extractfile_member recursion_limit members im)"

text \<open>
  \<^verbatim>\<open>retrieve_file_contents\<close>: \<^verbatim>\<open>.read()\<close> on the \<^verbatim>\<open>None\<close> that \<^verbatim>\<open>extractfile\<close>
  returns for a directory raises \<^verbatim>\<open>AttributeError\<close>.
\<close>

definition retrieve_file_contents :: "string \<Rightarrow> target \<Rightarrow> world \<Rightarrow> error + bytes" where
  "retrieve_file_contents path self w =
     (case retrieve_tarball_contents path self w of
        Inl e \<Rightarrow> Inl e
      | Inr members \<Rightarrow>
          (case extractfile members (os_path_basename path) of
             Inl e \<Rightarrow> Inl e
           | Inr None \<Rightarrow> Inl AttributeError
           | Inr (Some b) \<Rightarrow> Inr b))"

text \<open>
  \<^verbatim>\<open>retrieve_path\<close>: the result is the pair of arguments given to \<^verbatim>\<open>extractall\<close>, the
  directory to extract into and the members selected by the comprehension.
\<close>

definition retrieve_path :: "string \<Rightarrow> string \<Rightarrow> target \<Rightarrow> world \<Rightarrow> error + string \<times> tar_member list" where
  "retrieve_path path local_dir self w =
     (case retrieve_tarball_contents path self w of
        Inl e \<Rightarrow> Inl e
      | Inr members \<Rightarrow>
          Inr (os_path_join local_dir (lstrip_slash (os_path_dirname path)),
               filter (\<lambda>m. startswith (name m) (lstrip_slash path)) members))"

section \<open>Retrieval context\<close>

text \<open>
  The argument \<^verbatim>\<open>local_thing\<close> is a path (\<^verbatim>\<open>str\<close> or \<^verbatim>\<open>bytes\<close>), \<^verbatim>\<open>None\<close>, an object
  with a \<^verbatim>\<open>write\<close> attribute, or anything else. Opening a file with mode \<^verbatim>\<open>"wb"\<close>
  creates or empties it and leaves the position at its start, so the later write lays
  the bytes over the start of whatever the file holds by then. A writable object
  appends what is written to it.
\<close>

datatype local_thing = PathThing string | NoneThing | WritableThing nat | OtherThing

datatype local_file = FileObject string | WritableObject nat

datatype yielded = YieldPath string | YieldObject nat

definition open_wb :: "string \<Rightarrow> world \<Rightarrow> error + world" where
  "open_wb p w =
     (if p \<in> set (unwritable w) then Inl OSError else Inr (w\<lparr>files := (p, []) # files w\<rparr>))"

definition tempfile_mktemp :: "world \<Rightarrow> error + string \<times> world" where
  "tempfile_mktemp w =
     (case tmp_names w of
        [] \<Rightarrow> Inl OSError
      | n # ns \<Rightarrow> Inr (n, w\<lparr>tmp_names := ns\<rparr>))"

definition file_content :: "world \<Rightarrow> string \<Rightarrow> bytes" where
  "file_content w p = (case map_of (files w) p of None \<Rightarrow> [] | Some b \<Rightarrow> b)"

definition sink_content :: "world \<Rightarrow> nat \<Rightarrow> bytes" where
  "sink_content w i = (case map_of (sinks w) i of None \<Rightarrow> [] | Some b \<Rightarrow> b)"

definition local_file_write :: "local_file \<Rightarrow> bytes \<Rightarrow> world \<Rightarrow> world" where
  "local_file_write f b w =
     (case f of
        FileObject p \<Rightarrow> w\<lparr>files := (p, b @ drop (length b) (file_content w p)) # files w\<rparr>
      | WritableObject i \<Rightarrow> w\<lparr>sinks := (i, sink_content w i @ b) # sinks w\<rparr>)"

text \<open>
  \<^verbatim>\<open>retrieval_context\<close>: the scope body receives what is yielded and the world, and
  returns the exception it raises, if any, and the world as it leaves it. The
  \<^verbatim>\<open>finally\<close> clause retrieves and writes on both exits; an exception of the retrieval
  replaces the body's.
\<close>

definition retrieval_context ::
  "string \<Rightarrow> local_thing \<Rightarrow> target \<Rightarrow> (yielded \<Rightarrow> world \<Rightarrow> error option \<times> world) \<Rightarrow> world
     \<Rightarrow> (error + unit) \<times> world" where
  "retrieval_context path thing self body w =
     (case (case thing of
              PathThing p \<Rightarrow>
                (case open_wb p w of
                   Inl e \<Rightarrow> Inl (e, w)
                 | Inr w1 \<Rightarrow> Inr (YieldPath p, FileObject p, w1))
            | NoneThing \<Rightarrow>
                (case tempfile_mktemp w of
                   Inl e \<Rightarrow> Inl (e, w)
                 | Inr (n, w1) \<Rightarrow>
                     (case open_wb n w1 of
                        Inl e \<Rightarrow> Inl (e, w1)
                      | Inr w2 \<Rightarrow> Inr (YieldPath n, FileObject n, w2)))
            | WritableThing i \<Rightarrow> Inr (YieldObject i, WritableObject i, w)
            | OtherThing \<Rightarrow> Inl (ValueError, w)) of
        Inl (e, w') \<Rightarrow> (Inl e, w')
      | Inr (to_yield, local_file, w1) \<Rightarrow>
          let (raised, w2) = body to_yield w1 in
          (case retrieve_file_contents path self w2 of
             Inl e \<Rightarrow> (Inl e, w2)
           | Inr b \<Rightarrow>
               (case raised of Some e \<Rightarrow> Inl e | None \<Rightarrow> Inr (),
                local_file_write local_file b w2)))"

section \<open>A concrete scenario\<close>

text \<open>
  The image of the repository's tests, whose entrypoint is a single program, a world
  that knows it, a container started from it, and the target once built and started.
\<close>

definition example_image :: docker_image where
  "example_image =
     \<lparr>Config = \<lparr>Entrypoint = Some [''/bin/true''], Cmd = None, Env = Some [''PATH=/bin'']\<rparr>\<rparr>"

definition example_world :: world where
  "example_world =
     \<lparr>images = [(''archr-test:entrypoint-env'', example_image)], archives = [], dirs = [],
      mounts = [], files = [], sinks = [], tmp_names = [''/tmp/tmpa''], unwritable = []\<rparr>"

definition example_container :: docker_container where
  "example_container =
     \<lparr>cid = ''c0ffee'', MergedDir = Some ''/var/lib/docker/overlay2/c0ffee/merged''\<rparr>"

definition example_running :: target where
  "example_running =
     \<lparr>image_id = ''archr-test:entrypoint-env'', target_args = Some [''/bin/true''],
      target_path = Some ''/bin/true'', target_env = Some [''PATH=/bin''],
      image_obj = Some example_image, container = Some example_container\<rparr>"

text \<open>The target as \<^verbatim>\<open>build\<close> leaves it, with the defaults and with explicit values.\<close>

definition example_built :: target where
  "example_built =
     \<lparr>image_id = ''archr-test:entrypoint-env'', target_args = Some [''/bin/true''],
      target_path = Some ''/bin/true'', target_env = Some [''PATH=/bin''],
      image_obj = Some example_image, container = None\<rparr>"

definition example_explicit :: target where
  "example_explicit =
     \<lparr>image_id = ''archr-test:entrypoint-env'', target_args = Some [''/bin/sh'', ''-c'', ''id''],
      target_path = Some ''/bin/busybox'', target_env = Some [''HOME=/root''],
      image_obj = Some example_image, container = None\<rparr>"

text \<open>
  The effective command as the specification words it: the prefix, then \<^verbatim>\<open>args\<close> if
  given and otherwise the target's default arguments, then the suffix.
\<close>

definition claimed_command ::
  "string list option \<Rightarrow> string list option \<Rightarrow> string list option \<Rightarrow> target \<Rightarrow> string list" where
  "claimed_command args args_prefix args_suffix self =
     or_empty args_prefix
       @ (case args of Some given \<Rightarrow> given | None \<Rightarrow> or_empty (target_args self))
       @ or_empty args_suffix"

text \<open>The world once the example container is started and its filesystem mounted.\<close>

definition example_mounted :: world where
  "example_mounted =
     example_world\<lparr>dirs := [''/tmp/archr_mounts/c0ffee''], mounts := [''/tmp/archr_mounts/c0ffee'']\<rparr>"

text \<open>The process that copies a file inside the example container.\<close>

definition example_process :: popen where
  "example_process =
     \<lparr>argv = [''docker'', ''exec'', ''-i'', ''-e'', ''PATH=/bin'', ''c0ffee'',
              ''cp'', ''/etc/passwd'', ''/tmp/foo'']\<rparr>"

text \<open>
  Archives the runtime returns for the example container: for the file
  \<^verbatim>\<open>/etc/passwd\<close> the single member \<^verbatim>\<open>passwd\<close>; for the directory \<^verbatim>\<open>/etc\<close> the
  directory, a file in it, and a file of the unrelated directory \<^verbatim>\<open>etc-shadow\<close>, such
  as a misbehaving runtime may add.
\<close>

definition example_passwd :: tar_member where
  "example_passwd = \<lparr>name = ''passwd'', tartype = REGTYPE, data = ''root:x:0:0:root:/root:/bin/sh'', linkname = []\<rparr>"

definition example_etc :: "tar_member list" where
  "example_etc =
     [\<lparr>name = ''etc'', tartype = DIRTYPE, data = [], linkname = []\<rparr>,
      \<lparr>name = ''etc/passwd'', tartype = REGTYPE, data = ''root:x:0:0:root:/root:/bin/sh'', linkname = []\<rparr>,
      \<lparr>name = ''etc-shadow/secret'', tartype = REGTYPE, data = ''hunter2'', linkname = []\<rparr>]"

definition example_files :: world where
  "example_files =
     example_mounted\<lparr>archives := [(''/etc/passwd'', [example_passwd]), (''/etc'', example_etc)]\<rparr>"

text \<open>
  Two scope bodies for \<^verbatim>\<open>retrieval_context\<close>. Both copy a file to \<^verbatim>\<open>/tmp/foo\<close> inside
  the container, so that the runtime then returns an archive for that path; the second
  raises afterwards.
\<close>

definition example_foo :: tar_member where
  "example_foo = \<lparr>name = ''foo'', tartype = REGTYPE, data = ''root:x:0:0:root:/root:/bin/sh'', linkname = []\<rparr>"

definition example_copy :: "yielded \<Rightarrow> world \<Rightarrow> error option \<times> world" where
  "example_copy y w = (None, w\<lparr>archives := (''/tmp/foo'', [example_foo]) # archives w\<rparr>)"

definition example_copy_then_raise :: "yielded \<Rightarrow> world \<Rightarrow> error option \<times> world" where
  "example_copy_then_raise y w =
     (Some ValueError, w\<lparr>archives := (''/tmp/foo'', [example_foo]) # archives w\<rparr>)"

section \<open>Truthiness\<close>

lemma py_or_Nil: "py_or (Some []) y = py_or None y"
  by (simp add: py_or_def truthy_def)

lemma py_or_truthy: "truthy x \<Longrightarrow> py_or x y = x"
  by (simp add: py_or_def)

lemma py_or_falsy: "\<not> truthy x \<Longrightarrow> py_or x y = y"
  by (simp add: py_or_def)

lemma truthy_simps:
  "truthy None = False" "truthy (Some []) = False" "truthy (Some (a # as)) = True"
  by (simp_all add: truthy_def)

lemma truthy_SomeD: "truthy x \<Longrightarrow> \<exists>v. x = Some v \<and> v \<noteq> []"
  by (cases x) (simp_all add: truthy_def)

lemma or_empty_simps: "or_empty None = []" "or_empty (Some v) = v"
  by (cases v; simp add: or_empty_def py_or_def truthy_def)+

lemma prefix_or_empty: "(if truthy p then or_empty p @ xs else xs) = or_empty p @ xs"
  by (cases p) (auto simp: truthy_def or_empty_simps)

lemma suffix_or_empty: "(if truthy p then xs @ or_empty p else xs) = xs @ or_empty p"
  by (cases p) (auto simp: truthy_def or_empty_simps)

lemma truthy_iff: "truthy x \<longleftrightarrow> x \<notin> {None, Some []}"
  by (cases x) (simp_all add: truthy_def)

section \<open>Defaults computed by build\<close>

lemma build_Inr:
  assumes "build self w = (Inr (), self', w')"
  obtains img where "map_of (images w) (image_id self) = Some img"
    and "w' = w"
    and "image_obj self' = Some img"
    and "target_args self' = py_or (target_args self)
            (Some (or_empty (Entrypoint (Config img)) @ or_empty (Cmd (Config img))))"
    and "target_env self' = py_or (target_env self) (Env (Config img))"
    and "truthy (target_path self) \<Longrightarrow> target_path self' = target_path self"
    and "\<not> truthy (target_path self) \<Longrightarrow>
           \<exists>a rest. target_args self' = Some (a # rest) \<and> target_path self' = Some a"
proof (cases "map_of (images w) (image_id self)")
  case None
  with assms show ?thesis by (simp add: build_def)
next
  case (Some img)
  show ?thesis
  proof (rule that [of img])
    show "map_of (images w) (image_id self) = Some img" by (rule Some)
  next
    show "w' = w" using assms Some
      by (auto simp: build_def Let_def split: if_splits option.splits list.splits)
  next
    show "image_obj self' = Some img" using assms Some
      by (auto simp: build_def Let_def split: if_splits option.splits list.splits)
  next
    show "target_args self' = py_or (target_args self)
            (Some (or_empty (Entrypoint (Config img)) @ or_empty (Cmd (Config img))))"
      using assms Some
      by (auto simp: build_def Let_def split: if_splits option.splits list.splits)
  next
    show "target_env self' = py_or (target_env self) (Env (Config img))"
      using assms Some
      by (auto simp: build_def Let_def split: if_splits option.splits list.splits)
  next
    assume "truthy (target_path self)"
    then show "target_path self' = target_path self" using assms Some
      by (auto simp: build_def Let_def split: if_splits option.splits list.splits)
  next
    assume "\<not> truthy (target_path self)"
    then show "\<exists>a rest. target_args self' = Some (a # rest) \<and> target_path self' = Some a"
      using assms Some
      by (auto simp: build_def Let_def split: if_splits option.splits list.splits)
  qed
qed

text \<open>
  C2, as stated, fails: a value that was supplied but is empty is not left unchanged.
  Built from the test image with \<^verbatim>\<open>target_args=[]\<close>, the target ends with the image's
  entrypoint as its arguments.
\<close>

theorem build_keeps_empty_args_counterexample:
  "fst (build (init ''archr-test:entrypoint-env'' (Some []) None None) example_world) = Inr ()
   \<and> target_args (init ''archr-test:entrypoint-env'' (Some []) None None) = Some []
   \<and> target_args (fst (snd (build (init ''archr-test:entrypoint-env'' (Some []) None None)
                                  example_world))) = Some [''/bin/true'']"
  by (simp add: build_def init_def example_world_def example_image_def Let_def
        py_or_def truthy_def or_empty_def)

text \<open>
  C2, amended. After a successful \<^verbatim>\<open>build\<close>: \<^verbatim>\<open>target_args\<close>, when it was \<^verbatim>\<open>None\<close> or
  empty, is the image's entrypoint followed by its command (each empty when absent);
  \<^verbatim>\<open>target_env\<close>, when it was \<^verbatim>\<open>None\<close> or empty, is the image's environment;
  \<^verbatim>\<open>target_path\<close>, when it was \<^verbatim>\<open>None\<close> or empty, is the first of the resulting
  arguments; and a supplied value that is not empty is left unchanged.
\<close>

theorem build_defaults:
  assumes "build self w = (Inr (), self', w')"
  shows "\<exists>img. map_of (images w) (image_id self) = Some img
     \<and> (target_args self \<in> {None, Some []} \<longrightarrow>
          target_args self' = Some (or_empty (Entrypoint (Config img)) @ or_empty (Cmd (Config img))))
     \<and> (target_env self \<in> {None, Some []} \<longrightarrow> target_env self' = Env (Config img))
     \<and> (target_path self \<in> {None, Some []} \<longrightarrow>
          (\<exists>a rest. target_args self' = Some (a # rest) \<and> target_path self' = Some a))
     \<and> (target_args self \<notin> {None, Some []} \<longrightarrow> target_args self' = target_args self)
     \<and> (target_env self \<notin> {None, Some []} \<longrightarrow> target_env self' = target_env self)
     \<and> (target_path self \<notin> {None, Some []} \<longrightarrow> target_path self' = target_path self)"
  using assms
proof (rule build_Inr)
  fix img
  assume img: "map_of (images w) (image_id self) = Some img"
    and args: "target_args self' = py_or (target_args self)
            (Some (or_empty (Entrypoint (Config img)) @ or_empty (Cmd (Config img))))"
    and env: "target_env self' = py_or (target_env self) (Env (Config img))"
    and keep: "truthy (target_path self) \<Longrightarrow> target_path self' = target_path self"
    and dflt: "\<not> truthy (target_path self) \<Longrightarrow>
           \<exists>a rest. target_args self' = Some (a # rest) \<and> target_path self' = Some a"
  have a1: "target_args self \<in> {None, Some []} \<longrightarrow>
          target_args self' = Some (or_empty (Entrypoint (Config img)) @ or_empty (Cmd (Config img)))"
    using args by (simp add: py_or_def truthy_iff)
  have a2: "target_args self \<notin> {None, Some []} \<longrightarrow> target_args self' = target_args self"
    using args by (simp add: py_or_def truthy_iff)
  have e1: "target_env self \<in> {None, Some []} \<longrightarrow> target_env self' = Env (Config img)"
    using env by (simp add: py_or_def truthy_iff)
  have e2: "target_env self \<notin> {None, Some []} \<longrightarrow> target_env self' = target_env self"
    using env by (simp add: py_or_def truthy_iff)
  have p1: "target_path self \<in> {None, Some []} \<longrightarrow>
          (\<exists>a rest. target_args self' = Some (a # rest) \<and> target_path self' = Some a)"
    using dflt by (simp add: truthy_iff)
  have p2: "target_path self \<notin> {None, Some []} \<longrightarrow> target_path self' = target_path self"
    using keep by (simp add: truthy_iff)
  from img a1 a2 e1 e2 p1 p2 show ?thesis by blast
qed

theorem build_defaults_witness:
  "build (init ''archr-test:entrypoint-env'' None None None) example_world
     = (Inr (), example_built, example_world)
   \<and> target_args example_built = Some [''/bin/true'']
   \<and> target_env example_built = Some [''PATH=/bin'']
   \<and> target_path example_built = Some ''/bin/true''
   \<and> build (init ''archr-test:entrypoint-env'' (Some [''/bin/sh'', ''-c'', ''id''])
              (Some ''/bin/busybox'') (Some [''HOME=/root''])) example_world
     = (Inr (), example_explicit, example_world)
   \<and> target_args example_explicit = Some [''/bin/sh'', ''-c'', ''id'']
   \<and> target_env example_explicit = Some [''HOME=/root'']
   \<and> target_path example_explicit = Some ''/bin/busybox''"
proof -
  have h1: "build (init ''archr-test:entrypoint-env'' None None None) example_world
              = (Inr (), example_built, example_world)"
    by (simp add: build_def init_def example_world_def example_image_def example_built_def
          Let_def py_or_def truthy_def or_empty_def)
  have h2: "build (init ''archr-test:entrypoint-env'' (Some [''/bin/sh'', ''-c'', ''id''])
              (Some ''/bin/busybox'') (Some [''HOME=/root''])) example_world
              = (Inr (), example_explicit, example_world)"
    by (simp add: build_def init_def example_world_def example_image_def example_explicit_def
          Let_def py_or_def truthy_def or_empty_def)
  have d: "target_args example_built = Some [''/bin/true'']
           \<and> target_env example_built = Some [''PATH=/bin'']
           \<and> target_path example_built = Some ''/bin/true''"
    using build_defaults [OF h1]
    by (auto simp: init_def example_world_def example_image_def or_empty_simps)
  have k: "target_args example_explicit = Some [''/bin/sh'', ''-c'', ''id'']
           \<and> target_env example_explicit = Some [''HOME=/root'']
           \<and> target_path example_explicit = Some ''/bin/busybox''"
    using build_defaults [OF h2]
    by (auto simp: init_def)
  from h1 h2 d k show ?thesis by blast
qed

section \<open>The command line of run_command\<close>

lemma run_command_running:
  assumes "container self = Some c" and "py_or args (target_args self) = Some base"
    and "target_env self = Some env"
  shows "run_command args args_prefix args_suffix aslr self =
           Inr \<lparr>argv = [''docker'', ''exec'', ''-i''] @ concat (map (\<lambda>e. [''-e'', e]) env)
                        @ [cid c]
                        @ (if aslr then [] else [''setarch'', ''x86_64'', ''-R''])
                        @ or_empty args_prefix @ base @ or_empty args_suffix\<rparr>"
  using assms by (simp add: run_command_def Let_def prefix_or_empty suffix_or_empty)

text \<open>
  C8, as stated, fails on the first part: with \<^verbatim>\<open>args=[]\<close> given, the effective command
  is not prefix, \<^verbatim>\<open>args\<close>, suffix (which would be empty here) but the target's default
  arguments.
\<close>

theorem run_command_given_empty_counterexample:
  "run_command (Some []) None None True example_running
     = Inr \<lparr>argv = [''docker'', ''exec'', ''-i'', ''-e'', ''PATH=/bin'', ''c0ffee'', ''/bin/true'']\<rparr>
   \<and> claimed_command (Some []) None None example_running = []"
  by (simp add: run_command_def example_running_def example_container_def Let_def
        py_or_def truthy_def or_empty_def claimed_command_def)

text \<open>
  C8, amended. Without a container \<^verbatim>\<open>run_command\<close> fails its assertion. With one, the
  command line is \<^verbatim>\<open>docker exec -i\<close>, one \<^verbatim>\<open>-e\<close> assignment for every entry of
  \<^verbatim>\<open>target_env\<close>, the container id, the \<^verbatim>\<open>setarch x86_64 -R\<close> wrapper when \<^verbatim>\<open>aslr\<close> is
  false, and then the prefix, the base command and the suffix, where the base command is
  \<^verbatim>\<open>args\<close> if it is given and not empty, and the target's \<^verbatim>\<open>target_args\<close> otherwise.
\<close>

theorem run_command_effective:
  "(container self = None \<longrightarrow>
      run_command args args_prefix args_suffix aslr self = Inl AssertionError)
   \<and> (\<forall>c base env.
        container self = Some c
        \<and> (if args \<in> {None, Some []} then target_args self else args) = Some base
        \<and> target_env self = Some env \<longrightarrow>
        run_command args args_prefix args_suffix aslr self =
          Inr \<lparr>argv = [''docker'', ''exec'', ''-i''] @ concat (map (\<lambda>e. [''-e'', e]) env)
                       @ [cid c]
                       @ (if aslr then [] else [''setarch'', ''x86_64'', ''-R''])
                       @ or_empty args_prefix @ base @ or_empty args_suffix\<rparr>)"
proof (intro conjI impI allI)
  assume "container self = None"
  then show "run_command args args_prefix args_suffix aslr self = Inl AssertionError"
    by (simp add: run_command_def)
next
  fix c base env
  assume a: "container self = Some c
        \<and> (if args \<in> {None, Some []} then target_args self else args) = Some base
        \<and> target_env self = Some env"
  then have "py_or args (target_args self) = Some base"
    by (auto simp: py_or_def truthy_iff split: if_splits)
  with a show "run_command args args_prefix args_suffix aslr self =
          Inr \<lparr>argv = [''docker'', ''exec'', ''-i''] @ concat (map (\<lambda>e. [''-e'', e]) env)
                       @ [cid c]
                       @ (if aslr then [] else [''setarch'', ''x86_64'', ''-R''])
                       @ or_empty args_prefix @ base @ or_empty args_suffix\<rparr>"
    by (simp add: run_command_running)
qed

theorem run_command_effective_witness:
  "run_command None (Some [''strace'', ''-f'']) (Some [''--help'']) False example_running
     = Inr \<lparr>argv = [''docker'', ''exec'', ''-i'', ''-e'', ''PATH=/bin'', ''c0ffee'',
                     ''setarch'', ''x86_64'', ''-R'', ''strace'', ''-f'', ''/bin/true'', ''--help'']\<rparr>
   \<and> run_command (Some [''id'']) None None True example_running
     = Inr \<lparr>argv = [''docker'', ''exec'', ''-i'', ''-e'', ''PATH=/bin'', ''c0ffee'', ''id'']\<rparr>
   \<and> run_command (Some [''id'']) None None True example_built = Inl AssertionError"
proof -
  have c: "container example_running = Some example_container"
    and e: "target_env example_running = Some [''PATH=/bin'']"
    and a: "target_args example_running = Some [''/bin/true'']"
    and n: "container example_built = None"
    by (simp_all add: example_running_def example_built_def)
  have r1: "run_command None (Some [''strace'', ''-f'']) (Some [''--help'']) False example_running
     = Inr \<lparr>argv = [''docker'', ''exec'', ''-i'', ''-e'', ''PATH=/bin'', ''c0ffee'',
                     ''setarch'', ''x86_64'', ''-R'', ''strace'', ''-f'', ''/bin/true'', ''--help'']\<rparr>"
    using run_command_effective [of example_running None "Some [''strace'', ''-f'']" "Some [''--help'']" False]
    by (simp add: c e a or_empty_simps example_container_def)
  have r2: "run_command (Some [''id'']) None None True example_running
     = Inr \<lparr>argv = [''docker'', ''exec'', ''-i'', ''-e'', ''PATH=/bin'', ''c0ffee'', ''id'']\<rparr>"
    using run_command_effective [of example_running "Some [''id'']" None None True]
    by (simp add: c e a or_empty_simps example_container_def)
  have r3: "run_command (Some [''id'']) None None True example_built = Inl AssertionError"
    using run_command_effective [of example_built "Some [''id'']" None None True]
    by (simp add: n)
  from r1 r2 r3 show ?thesis by blast
qed

section \<open>An empty sequence counts as no argument\<close>

text \<open>
  C10. Defaults are selected by truthiness, not by a test for \<^verbatim>\<open>None\<close>.
  \<^verbatim>\<open>run_command\<close> called with \<^verbatim>\<open>args=[]\<close> behaves as with no \<^verbatim>\<open>args\<close>, and it falls back
  to the target's \<^verbatim>\<open>target_args\<close>: on a target with a container, arguments and an
  environment, the command line it starts is the one built around \<^verbatim>\<open>target_args\<close>. For
  an image the daemon knows, a target constructed with \<^verbatim>\<open>target_args=[]\<close> or
  \<^verbatim>\<open>target_env=[]\<close> is built exactly as one constructed without them, the empty values
  being replaced by the entrypoint followed by the command, and by the image's
  environment.
\<close>

theorem empty_sequence_is_default:
  assumes "map_of (images w) image_name = Some img"
  shows "run_command (Some []) args_prefix args_suffix aslr self
           = run_command None args_prefix args_suffix aslr self
       \<and> (\<forall>c base env.
             container self = Some c \<and> target_args self = Some base
             \<and> target_env self = Some env \<longrightarrow>
             run_command (Some []) args_prefix args_suffix aslr self =
               Inr \<lparr>argv = [''docker'', ''exec'', ''-i'']
                            @ concat (map (\<lambda>e. [''-e'', e]) env) @ [cid c]
                            @ (if aslr then [] else [''setarch'', ''x86_64'', ''-R''])
                            @ or_empty args_prefix @ base @ or_empty args_suffix\<rparr>)
       \<and> build (init image_name (Some []) path env) w = build (init image_name None path env) w
       \<and> build (init image_name args path (Some [])) w = build (init image_name args path None) w
       \<and> target_args (fst (snd (build (init image_name (Some []) path env) w)))
           = Some (or_empty (Entrypoint (Config img)) @ or_empty (Cmd (Config img)))
       \<and> target_env (fst (snd (build (init image_name args path (Some [])) w)))
           = Env (Config img)"
proof -
  have run: "run_command (Some []) args_prefix args_suffix aslr self
           = run_command None args_prefix args_suffix aslr self"
    unfolding run_command_def py_or_Nil by (rule refl)
  have fallback: "\<forall>c base env.
             container self = Some c \<and> target_args self = Some base
             \<and> target_env self = Some env \<longrightarrow>
             run_command (Some []) args_prefix args_suffix aslr self =
               Inr \<lparr>argv = [''docker'', ''exec'', ''-i'']
                            @ concat (map (\<lambda>e. [''-e'', e]) env) @ [cid c]
                            @ (if aslr then [] else [''setarch'', ''x86_64'', ''-R''])
                            @ or_empty args_prefix @ base @ or_empty args_suffix\<rparr>"
  proof (intro allI impI)
    fix c base env
    assume h: "container self = Some c \<and> target_args self = Some base
             \<and> target_env self = Some env"
    then have "py_or (Some []) (target_args self) = Some base"
      by (simp add: py_or_falsy truthy_simps)
    with h show "run_command (Some []) args_prefix args_suffix aslr self =
               Inr \<lparr>argv = [''docker'', ''exec'', ''-i'']
                            @ concat (map (\<lambda>e. [''-e'', e]) env) @ [cid c]
                            @ (if aslr then [] else [''setarch'', ''x86_64'', ''-R''])
                            @ or_empty args_prefix @ base @ or_empty args_suffix\<rparr>"
      by (simp add: run_command_running)
  qed
  have b1: "build (init image_name (Some []) path env) w = build (init image_name None path env) w"
    using assms unfolding build_def init_def by (simp add: py_or_Nil)
  have b2: "build (init image_name args path (Some [])) w = build (init image_name args path None) w"
    using assms unfolding build_def init_def by (simp add: py_or_Nil)
  have a: "target_args (fst (snd (build (init image_name (Some []) path env) w)))
           = Some (or_empty (Entrypoint (Config img)) @ or_empty (Cmd (Config img)))"
    using assms
    by (simp add: build_def init_def Let_def py_or_falsy truthy_simps split: list.splits)
  have e: "target_env (fst (snd (build (init image_name args path (Some [])) w))) = Env (Config img)"
    using assms
    by (simp add: build_def init_def Let_def py_or_falsy truthy_simps
          split: option.splits list.splits)
  from run fallback b1 b2 a e show ?thesis by (intro conjI)
qed

theorem empty_sequence_is_default_witness:
  "run_command (Some []) None None True example_running
     = run_command None None None True example_running
   \<and> run_command (Some []) None None True example_running
       = Inr \<lparr>argv = [''docker'', ''exec'', ''-i'', ''-e'', ''PATH=/bin'', ''c0ffee'',
                       ''/bin/true'']\<rparr>
   \<and> build (init ''archr-test:entrypoint-env'' (Some []) None None) example_world
       = build (init ''archr-test:entrypoint-env'' None None None) example_world
   \<and> build (init ''archr-test:entrypoint-env'' None None (Some [])) example_world
       = build (init ''archr-test:entrypoint-env'' None None None) example_world
   \<and> target_args (fst (snd (build (init ''archr-test:entrypoint-env'' (Some []) None None)
                                  example_world)))
       = Some [''/bin/true'']
   \<and> target_env (fst (snd (build (init ''archr-test:entrypoint-env'' None None (Some []))
                                 example_world)))
       = Some [''PATH=/bin'']"
proof -
  have h: "map_of (images example_world) ''archr-test:entrypoint-env'' = Some example_image"
    by (simp add: example_world_def)
  have c: "or_empty (Entrypoint (Config example_image)) @ or_empty (Cmd (Config example_image))
             = [''/bin/true'']"
    by (simp add: example_image_def or_empty_simps)
  have v: "Env (Config example_image) = Some [''PATH=/bin'']"
    by (simp add: example_image_def)
  note t = empty_sequence_is_default
             [OF h, of None None True example_running None None None, unfolded c v]
  have k: "container example_running = Some example_container
           \<and> target_args example_running = Some [''/bin/true'']
           \<and> target_env example_running = Some [''PATH=/bin'']"
    by (simp add: example_running_def)
  have f: "run_command (Some []) None None True example_running
       = Inr \<lparr>argv = [''docker'', ''exec'', ''-i'', ''-e'', ''PATH=/bin'', ''c0ffee'',
                       ''/bin/true'']\<rparr>"
    using t [THEN conjunct2, THEN conjunct1, rule_format, OF k]
    by (simp add: or_empty_simps example_container_def)
  note r = t [THEN conjunct2, THEN conjunct2]
  from t [THEN conjunct1] f r [THEN conjunct1] r [THEN conjunct2, THEN conjunct1]
    r [THEN conjunct2, THEN conjunct2, THEN conjunct1]
    r [THEN conjunct2, THEN conjunct2, THEN conjunct2]
  show ?thesis by (intro conjI)
qed

section \<open>The container handle through the lifecycle\<close>

lemma start_example:
  "start (Inr example_container) example_built example_world = (Inr (), example_running, example_mounted)"
  by (simp add: start_def example_container_def example_built_def example_world_def
        example_running_def example_mounted_def local_path_def merged_path_def os_makedirs_def
        os_system_mount_def)

lemma stop_example:
  "stop None example_running example_mounted = (Inr (), example_running, example_world)"
  by (simp add: stop_def example_container_def example_world_def
        example_running_def example_mounted_def local_path_def os_rmdir_def
        os_system_umount_def)

lemma stop_again_example:
  "stop None example_running example_world = (Inl OSError, example_running, example_world)"
  by (simp add: stop_def example_container_def example_world_def
        example_running_def local_path_def os_rmdir_def os_system_umount_def)

lemma stop_self: "stop k self w = (r, self', w') \<Longrightarrow> self' = self"
  by (auto simp: stop_def Let_def split: option.splits sum.splits if_splits)

lemma remove_self: "remove k self w = (r, self', w') \<Longrightarrow> self' = self \<and> w' = w"
  by (auto simp: remove_def split: option.splits if_splits)

lemma start_container:
  "start (Inr c) self w = (r, self', w') \<Longrightarrow> self' = self\<lparr>container := Some c\<rparr>"
  by (auto simp: start_def Let_def local_path_def merged_path_def split: option.splits sum.splits)

lemma start_failed: "start (Inl e) self w = (r, self', w') \<Longrightarrow> self' = self \<and> w' = w \<and> r = Inl e"
  by (auto simp: start_def)

lemma build_container: "build self w = (r, self', w') \<Longrightarrow> container self' = container self"
  by (auto simp: build_def Let_def split: option.splits list.splits if_splits)

lemma stop_Inr:
  assumes "stop k self w = (Inr (), self', w')"
  obtains c where "container self = Some c"
    and "w' = w\<lparr>mounts := remove1 (''/tmp/archr_mounts/'' @ cid c) (mounts w),
                 dirs := removeAll (''/tmp/archr_mounts/'' @ cid c) (dirs w)\<rparr>"
  using assms
  by (auto simp: stop_def Let_def local_path_def os_rmdir_def os_system_umount_def
        split: option.splits sum.splits if_splits)

lemma stop_after_stop:
  assumes "stop k self w = (Inr (), self', w')"
  shows "stop (Some e) self' w' = (Inl e, self', w')"
    and "fst (stop None self' w') = Inl OSError"
    and "fst (snd (stop None self' w')) = self'"
proof -
  from assms have s: "self' = self" by (rule stop_self)
  from assms obtain c where c: "container self = Some c"
    and w': "w' = w\<lparr>mounts := remove1 (''/tmp/archr_mounts/'' @ cid c) (mounts w),
                 dirs := removeAll (''/tmp/archr_mounts/'' @ cid c) (dirs w)\<rparr>"
    by (rule stop_Inr)
  show "stop (Some e) self' w' = (Inl e, self', w')"
    by (simp add: s c stop_def)
  show "fst (stop None self' w') = Inl OSError"
    by (simp add: s c w' stop_def local_path_def os_rmdir_def os_system_umount_def)
  show "fst (snd (stop None self' w')) = self'"
    by (simp add: s c w' stop_def local_path_def os_rmdir_def os_system_umount_def)
qed

text \<open>
  C3, as stated, fails: \<^verbatim>\<open>stop\<close> and \<^verbatim>\<open>remove\<close> do not clear the handle. The example
  target is started, then stopped, then removed, all successfully, and
  \<^verbatim>\<open>self.container\<close> is still the container that \<^verbatim>\<open>start\<close> created.
\<close>

theorem handle_kept_after_stop_counterexample:
  "start (Inr example_container) example_built example_world
     = (Inr (), example_running, example_mounted)
   \<and> stop None example_running example_mounted = (Inr (), example_running, example_world)
   \<and> remove None example_running example_world = (Inr (), example_running, example_world)
   \<and> container example_running = Some example_container"
  by (simp add: start_example stop_example) (simp add: remove_def example_running_def)

text \<open>
  C3, amended. The handle is \<^verbatim>\<open>None\<close> after construction; \<^verbatim>\<open>build\<close> and a \<^verbatim>\<open>start\<close> whose
  container creation fails leave it as it is; a \<^verbatim>\<open>start\<close> whose container is created
  sets it to that container; \<^verbatim>\<open>stop\<close> and \<^verbatim>\<open>remove\<close> change no attribute of the target,
  so the handle stays set after them.
\<close>

theorem handle_set_by_start_only:
  "container (init image_name args path env) = None
   \<and> (build self w = (r, self', w') \<longrightarrow> container self' = container self)
   \<and> (start (Inl e) self w = (r, self', w') \<longrightarrow> container self' = container self)
   \<and> (start (Inr c) self w = (r, self', w') \<longrightarrow> container self' = Some c)
   \<and> (stop kill_reply self w = (r, self', w') \<longrightarrow> self' = self)
   \<and> (remove remove_reply self w = (r, self', w') \<longrightarrow> self' = self)"
proof (intro conjI impI)
  show "container (init image_name args path env) = None" by (simp add: init_def)
next
  assume "build self w = (r, self', w')"
  then show "container self' = container self" by (rule build_container)
next
  assume "start (Inl e) self w = (r, self', w')"
  then show "container self' = container self" by (auto dest: start_failed)
next
  assume "start (Inr c) self w = (r, self', w')"
  then show "container self' = Some c" by (auto dest: start_container)
next
  assume "stop kill_reply self w = (r, self', w')"
  then show "self' = self" by (rule stop_self)
next
  assume "remove remove_reply self w = (r, self', w')"
  then show "self' = self" by (auto dest: remove_self)
qed

theorem handle_set_by_start_only_witness:
  "container (init ''archr-test:entrypoint-env'' None None None) = None
   \<and> start (Inr example_container) example_built example_world
       = (Inr (), example_running, example_mounted)
   \<and> container example_running = Some example_container
   \<and> stop None example_running example_mounted = (Inr (), example_running, example_world)"
proof -
  note s = start_example
  note t = stop_example
  have "container example_running = Some example_container"
    using handle_set_by_start_only
      [of "''archr-test:entrypoint-env''" None None None example_built example_world
          "Inr ()" example_running example_mounted AttributeError example_container]
      s
    by blast
  moreover have "container (init ''archr-test:entrypoint-env'' None None None) = None"
    by (simp add: init_def)
  ultimately show ?thesis using s t by blast
qed

text \<open>
  C4, as stated, fails: \<^verbatim>\<open>stop\<close> on an already stopped target raises. After the first,
  successful \<^verbatim>\<open>stop\<close> the mount directory is gone, and \<^verbatim>\<open>os.rmdir\<close> raises
  \<^verbatim>\<open>OSError\<close> in the second, even when \<^verbatim>\<open>kill\<close> raises nothing.
\<close>

theorem stop_twice_raises_counterexample:
  "stop None example_running example_mounted = (Inr (), example_running, example_world)
   \<and> stop None example_running example_world = (Inl OSError, example_running, example_world)"
  by (simp add: stop_example stop_again_example)

text \<open>
  C4, amended. \<^verbatim>\<open>remove\<close> on a never-started target does not raise and changes
  nothing. On a target with a handle, \<^verbatim>\<open>remove\<close> sends the force-removal every time
  it is called, raises exactly what the runtime raises (nothing when the runtime raises
  nothing), and changes neither the target nor the host. A \<^verbatim>\<open>stop\<close> that follows a
  successful \<^verbatim>\<open>stop\<close> leaves the target's attributes unchanged and raises: the
  exception of \<^verbatim>\<open>container.kill()\<close> when that call raises, with nothing else changed,
  and \<^verbatim>\<open>OSError\<close> from \<^verbatim>\<open>os.rmdir\<close> when it does not.
\<close>

theorem remove_and_stop_repeated:
  "(container self = None \<longrightarrow> remove remove_reply self w = (Inr (), self, w))
   \<and> (\<forall>c. container self = Some c \<longrightarrow>
         remove remove_reply self w
           = (case remove_reply of None \<Rightarrow> Inr () | Some e \<Rightarrow> Inl e, self, w))
   \<and> (\<forall>self' w'. stop kill_reply self w = (Inr (), self', w') \<longrightarrow>
         self' = self
         \<and> (\<forall>e. stop (Some e) self' w' = (Inl e, self', w'))
         \<and> fst (stop None self' w') = Inl OSError
         \<and> fst (snd (stop None self' w')) = self')"
proof (intro conjI impI allI)
  assume "container self = None"
  then show "remove remove_reply self w = (Inr (), self, w)" by (simp add: remove_def)
next
  fix c assume "container self = Some c"
  then show "remove remove_reply self w
           = (case remove_reply of None \<Rightarrow> Inr () | Some e \<Rightarrow> Inl e, self, w)"
    by (simp add: remove_def split: option.splits)
next
  fix self' w' assume "stop kill_reply self w = (Inr (), self', w')"
  then show "self' = self" by (rule stop_self)
next
  fix self' w' e assume "stop kill_reply self w = (Inr (), self', w')"
  then show "stop (Some e) self' w' = (Inl e, self', w')" by (rule stop_after_stop)
next
  fix self' w' assume "stop kill_reply self w = (Inr (), self', w')"
  then show "fst (stop None self' w') = Inl OSError" by (rule stop_after_stop)
next
  fix self' w' assume "stop kill_reply self w = (Inr (), self', w')"
  then show "fst (snd (stop None self' w')) = self'" by (rule stop_after_stop)
qed

theorem remove_and_stop_repeated_witness:
  "remove (Some NotFound) example_built example_world = (Inr (), example_built, example_world)
   \<and> remove (Some NotFound) example_running example_world
       = (Inl NotFound, example_running, example_world)
   \<and> remove None example_running example_world = (Inr (), example_running, example_world)
   \<and> stop None example_running example_mounted = (Inr (), example_running, example_world)
   \<and> stop (Some APIError) example_running example_world
       = (Inl APIError, example_running, example_world)
   \<and> fst (stop None example_running example_world) = Inl OSError
   \<and> fst (snd (stop None example_running example_world)) = example_running"
proof -
  have n: "container example_built = None" by (simp add: example_built_def)
  have c: "container example_running = Some example_container" by (simp add: example_running_def)
  have r1: "remove (Some NotFound) example_built example_world
              = (Inr (), example_built, example_world)"
    using remove_and_stop_repeated [of example_built "Some NotFound" example_world] n by blast
  have r2: "remove (Some NotFound) example_running example_world
              = (Inl NotFound, example_running, example_world)"
    using remove_and_stop_repeated [of example_running "Some NotFound" example_world] c by simp
  have r3: "remove None example_running example_world = (Inr (), example_running, example_world)"
    using remove_and_stop_repeated [of example_running None example_world] c by simp
  note t = remove_and_stop_repeated
             [of example_running None example_mounted None,
              THEN conjunct2, THEN conjunct2, rule_format, OF stop_example]
  have s1: "stop (Some APIError) example_running example_world
              = (Inl APIError, example_running, example_world)"
    using t [THEN conjunct2, THEN conjunct1, rule_format, of APIError] .
  have s2: "fst (stop None example_running example_world) = Inl OSError"
    using t [THEN conjunct2, THEN conjunct2, THEN conjunct1] .
  have s3: "fst (snd (stop None example_running example_world)) = example_running"
    using t [THEN conjunct2, THEN conjunct2, THEN conjunct2] .
  from r1 r2 r3 stop_example s1 s2 s3 show ?thesis by (intro conjI)
qed

section \<open>Scoped execution\<close>

lemma run_context_started:
  assumes "run_command args args_prefix args_suffix aslr self = Inr p"
  shows "run_context args args_prefix args_suffix aslr self body wait_raises terminate_raises =
           (case terminate_raises of
              Some e' \<Rightarrow> Inl e'
            | None \<Rightarrow> (case body p of
                         Some e \<Rightarrow> Inl e
                       | None \<Rightarrow> (case wait_raises of Some e \<Rightarrow> Inl e | None \<Rightarrow> Inr ())),
            (if body p = None then [Wait p] else []) @ [Terminate p])"
  using assms by (simp add: run_context_def split: option.splits)

lemma run_command_example:
  "run_command (Some [''cp'', ''/etc/passwd'', ''/tmp/foo'']) None None True example_running
     = Inr example_process"
  by (simp add: run_command_def example_running_def example_container_def example_process_def
        py_or_def truthy_def)

text \<open>
  C9. Once the process is started, \<^verbatim>\<open>run_context\<close> hands the handle to the scope body.
  When the body ends normally the calls on the handle are \<^verbatim>\<open>wait\<close>, then
  \<^verbatim>\<open>terminate\<close>; when the body raises, \<^verbatim>\<open>terminate\<close> alone, and the body's exception
  propagates. \<^verbatim>\<open>terminate\<close> is thus called on every exit, also after a wait that
  succeeded or raised.
\<close>

theorem run_context_waits_and_terminates:
  assumes "run_command args args_prefix args_suffix aslr self = Inr p"
  shows "(body p = None \<longrightarrow>
            snd (run_context args args_prefix args_suffix aslr self body wait_raises terminate_raises)
              = [Wait p, Terminate p])
       \<and> (\<forall>e. body p = Some e \<longrightarrow>
            snd (run_context args args_prefix args_suffix aslr self body wait_raises terminate_raises)
              = [Terminate p])
       \<and> (\<forall>e. body p = Some e \<and> terminate_raises = None \<longrightarrow>
            fst (run_context args args_prefix args_suffix aslr self body wait_raises terminate_raises)
              = Inl e)
       \<and> (body p = None \<and> wait_raises = None \<and> terminate_raises = None \<longrightarrow>
            fst (run_context args args_prefix args_suffix aslr self body wait_raises terminate_raises)
              = Inr ())"
  by (simp add: run_context_started [OF assms])

theorem run_context_waits_and_terminates_witness:
  "run_context (Some [''cp'', ''/etc/passwd'', ''/tmp/foo'']) None None True example_running
       (\<lambda>p. None) None None
     = (Inr (), [Wait example_process, Terminate example_process])
   \<and> run_context (Some [''cp'', ''/etc/passwd'', ''/tmp/foo'']) None None True example_running
       (\<lambda>p. Some ValueError) None None
     = (Inl ValueError, [Terminate example_process])"
proof -
  have a: "run_context (Some [''cp'', ''/etc/passwd'', ''/tmp/foo'']) None None True example_running
       (\<lambda>p. None) None None
     = (Inr (), [Wait example_process, Terminate example_process])"
    using run_context_waits_and_terminates [OF run_command_example, of "\<lambda>p. None" None None]
    by (simp add: prod_eq_iff)
  have b: "run_context (Some [''cp'', ''/etc/passwd'', ''/tmp/foo'']) None None True example_running
       (\<lambda>p. Some ValueError) None None
     = (Inl ValueError, [Terminate example_process])"
    using run_context_waits_and_terminates
      [OF run_command_example, of "\<lambda>p. Some ValueError" None None]
    by (simp add: prod_eq_iff)
  from a b show ?thesis by blast
qed

section \<open>Reading a file out of the archive\<close>

lemma getmember_snoc:
  "getmember (members @ [x]) n = (if name x = n then Some (length members, x) else getmember members n)"
  by (simp add: getmember_def enumerate_append_eq)

lemma getmember_Some:
  "getmember members n = Some (i, m) \<Longrightarrow>
     i < length members \<and> members ! i = m \<and> name m = n
     \<and> (\<forall>j. i < j \<and> j < length members \<longrightarrow> name (members ! j) \<noteq> n)"
proof (induction members rule: rev_induct)
  case Nil
  then show ?case by (simp add: getmember_def)
next
  case (snoc x xs)
  show ?case
  proof (cases "name x = n")
    case True
    with snoc.prems have "i = length xs" "m = x" by (simp_all add: getmember_snoc)
    with True show ?thesis by (auto simp: nth_append)
  next
    case False
    with snoc.prems have "getmember xs n = Some (i, m)" by (simp add: getmember_snoc)
    from snoc.IH [OF this] False show ?thesis
      by (auto simp: nth_append less_Suc_eq)
  qed
qed

lemma getmember_None:
  "getmember members n = None \<longleftrightarrow> (\<forall>m \<in> set members. name m \<noteq> n)"
proof (induction members rule: rev_induct)
  case Nil
  show ?case by (simp add: getmember_def)
next
  case (snoc x xs)
  then show ?case by (auto simp: getmember_snoc)
qed

lemma extractfile_member_regular:
  assumes "tartype m = REGTYPE"
  shows "extractfile_member recursion_limit members (i, m) = Inr (Some (data m))"
proof -
  obtain k where k: "recursion_limit = Suc k"
    by (cases recursion_limit) (simp_all add: recursion_limit_def)
  show ?thesis unfolding k using assms by simp
qed

lemma extractfile_member_none:
  assumes "tartype m = DIRTYPE \<or> tartype m = SPECIALTYPE"
  shows "extractfile_member recursion_limit members (i, m) = Inr None"
proof -
  obtain k where k: "recursion_limit = Suc k"
    by (cases recursion_limit) (simp_all add: recursion_limit_def)
  show ?thesis unfolding k using assms by auto
qed

text \<open>
  C5, as stated, fails on the error: for a path that names a directory the archive
  member of that name is a directory, \<^verbatim>\<open>extractfile\<close> returns \<^verbatim>\<open>None\<close>, and
  \<^verbatim>\<open>.read()\<close> raises \<^verbatim>\<open>AttributeError\<close>, not a not-found error.
\<close>

theorem retrieve_directory_counterexample:
  "retrieve_file_contents ''/etc'' example_running example_files = Inl AttributeError"
  by (simp add: retrieve_file_contents_def retrieve_tarball_contents_def example_running_def
        example_files_def example_etc_def os_path_basename_def extractfile_def getmember_def
        extractfile_member_none)

text \<open>
  C5, amended. With a container, \<^verbatim>\<open>retrieve_file_contents\<close> raises the runtime's
  \<^verbatim>\<open>NotFound\<close> when the container has no such path; \<^verbatim>\<open>KeyError\<close> when no member of
  the archive is named as the basename of the path; and otherwise it looks at the last
  member of that name: it returns that member's bytes when it is a regular file, and
  raises \<^verbatim>\<open>AttributeError\<close> when it is a directory or a special file.
\<close>

theorem retrieve_file_contents_outcomes:
  assumes "container self = Some c"
  shows "(map_of (archives w) path = None \<longrightarrow> retrieve_file_contents path self w = Inl NotFound)
    \<and> (\<forall>members. map_of (archives w) path = Some members \<longrightarrow>
          ((\<forall>m \<in> set members. name m \<noteq> os_path_basename path) \<longrightarrow>
              retrieve_file_contents path self w = Inl KeyError)
        \<and> (\<forall>i. i < length members \<and> name (members ! i) = os_path_basename path
                \<and> (\<forall>j. i < j \<and> j < length members \<longrightarrow> name (members ! j) \<noteq> os_path_basename path)
              \<longrightarrow> (tartype (members ! i) = REGTYPE \<longrightarrow>
                     retrieve_file_contents path self w = Inr (data (members ! i)))
                \<and> (tartype (members ! i) = DIRTYPE \<or> tartype (members ! i) = SPECIALTYPE \<longrightarrow>
                     retrieve_file_contents path self w = Inl AttributeError)))"
proof (intro conjI impI allI)
  assume "map_of (archives w) path = None"
  with assms show "retrieve_file_contents path self w = Inl NotFound"
    by (simp add: retrieve_file_contents_def retrieve_tarball_contents_def)
next
  fix members
  assume a: "map_of (archives w) path = Some members"
    and n: "\<forall>m \<in> set members. name m \<noteq> os_path_basename path"
  from n have "getmember members (os_path_basename path) = None" by (simp add: getmember_None)
  with assms a show "retrieve_file_contents path self w = Inl KeyError"
    by (simp add: retrieve_file_contents_def retrieve_tarball_contents_def extractfile_def)
next
  fix members i
  assume a: "map_of (archives w) path = Some members"
    and l: "i < length members \<and> name (members ! i) = os_path_basename path
                \<and> (\<forall>j. i < j \<and> j < length members \<longrightarrow> name (members ! j) \<noteq> os_path_basename path)"
    and r: "tartype (members ! i) = REGTYPE"
  have g: "getmember members (os_path_basename path) = Some (i, members ! i)"
  proof (cases "getmember members (os_path_basename path)")
    case None
    with l show ?thesis by (auto simp: getmember_None)
  next
    case (Some im)
    obtain i' m' where im: "im = (i', m')" by (cases im)
    from getmember_Some [OF Some [unfolded im]] l have "i' = i"
      by (metis linorder_neqE_nat)
    with getmember_Some [OF Some [unfolded im]] Some im show ?thesis by simp
  qed
  with assms a r show "retrieve_file_contents path self w = Inr (data (members ! i))"
    by (simp add: retrieve_file_contents_def retrieve_tarball_contents_def extractfile_def
          extractfile_member_regular)
next
  fix members i
  assume a: "map_of (archives w) path = Some members"
    and l: "i < length members \<and> name (members ! i) = os_path_basename path
                \<and> (\<forall>j. i < j \<and> j < length members \<longrightarrow> name (members ! j) \<noteq> os_path_basename path)"
    and r: "tartype (members ! i) = DIRTYPE \<or> tartype (members ! i) = SPECIALTYPE"
  have g: "getmember members (os_path_basename path) = Some (i, members ! i)"
  proof (cases "getmember members (os_path_basename path)")
    case None
    with l show ?thesis by (auto simp: getmember_None)
  next
    case (Some im)
    obtain i' m' where im: "im = (i', m')" by (cases im)
    from getmember_Some [OF Some [unfolded im]] l have "i' = i"
      by (metis linorder_neqE_nat)
    with getmember_Some [OF Some [unfolded im]] Some im show ?thesis by simp
  qed
  with assms a r show "retrieve_file_contents path self w = Inl AttributeError"
    by (simp add: retrieve_file_contents_def retrieve_tarball_contents_def extractfile_def
          extractfile_member_none)
qed

theorem retrieve_file_contents_outcomes_witness:
  "retrieve_file_contents ''/etc/passwd'' example_running example_files
     = Inr ''root:x:0:0:root:/root:/bin/sh''
   \<and> retrieve_file_contents ''/nonexistent'' example_running example_files = Inl NotFound
   \<and> retrieve_file_contents ''/etc/'' example_running (example_files\<lparr>archives := [(''/etc/'', example_etc)]\<rparr>)
       = Inl KeyError"
proof -
  have c: "container example_running = Some example_container"
    by (simp add: example_running_def)
  have a1: "map_of (archives example_files) ''/etc/passwd'' = Some [example_passwd]"
    and a2: "map_of (archives example_files) ''/nonexistent'' = None"
    by (simp_all add: example_files_def)
  have b: "os_path_basename ''/etc/passwd'' = ''passwd''" "os_path_basename ''/etc/'' = []"
    by (simp_all add: os_path_basename_def)
  have r1: "retrieve_file_contents ''/etc/passwd'' example_running example_files
              = Inr ''root:x:0:0:root:/root:/bin/sh''"
    using retrieve_file_contents_outcomes [OF c, of example_files "''/etc/passwd''"] a1
    by (simp add: b example_passwd_def)
  have r2: "retrieve_file_contents ''/nonexistent'' example_running example_files = Inl NotFound"
    using retrieve_file_contents_outcomes [OF c, of example_files "''/nonexistent''"] a2
    by simp
  have r3: "retrieve_file_contents ''/etc/'' example_running
              (example_files\<lparr>archives := [(''/etc/'', example_etc)]\<rparr>) = Inl KeyError"
    using retrieve_file_contents_outcomes
      [OF c, of "example_files\<lparr>archives := [(''/etc/'', example_etc)]\<rparr>" "''/etc/''"]
    by (simp add: b example_etc_def)
  from r1 r2 r3 show ?thesis by blast
qed

section \<open>Selecting the members to extract\<close>

text \<open>
  C6 at an input where it fails. The archive for \<^verbatim>\<open>/etc\<close> holds a member of the
  directory \<^verbatim>\<open>etc-shadow\<close>. Its name starts with the characters \<^verbatim>\<open>etc\<close>, so the
  comprehension of \<^verbatim>\<open>retrieve_path\<close> selects it for extraction with the others, although
  it is not under \<^verbatim>\<open>etc\<close>.
\<close>

theorem retrieve_path_selects_sibling:
  "retrieve_path ''/etc'' ''/tmp/out'' example_running example_files
     = Inr (''/tmp/out/'', example_etc)
   \<and> name (example_etc ! 2) = ''etc-shadow/secret''
   \<and> \<not> path_within ''etc'' ''etc-shadow/secret''"
  by (simp add: retrieve_path_def retrieve_tarball_contents_def example_running_def
        example_files_def example_etc_def os_path_dirname_def os_path_join_def lstrip_slash_def
        rstrip_slash_def startswith_def path_within_def path_components_def split_slash_def)

section \<open>Resolved paths and the mount root\<close>

lemma lstrip_slash_relative: "\<not> startswith (lstrip_slash s) ''/''"
proof (cases "lstrip_slash s")
  case Nil
  then show ?thesis by (simp add: startswith_def)
next
  case (Cons c cs)
  then have ne: "dropWhile (\<lambda>c. c = CHR ''/'') s \<noteq> []"
    by (simp add: lstrip_slash_def)
  have "hd (dropWhile (\<lambda>c. c = CHR ''/'') s) \<noteq> CHR ''/''"
    using hd_dropWhile [OF ne] .
  with Cons have "c \<noteq> CHR ''/''" by (simp add: lstrip_slash_def)
  with Cons show ?thesis by (simp add: startswith_def)
qed

lemma startswith_join: "\<not> startswith b ''/'' \<Longrightarrow> startswith (os_path_join a b) a"
  by (simp add: os_path_join_def startswith_def)

text \<open>
  Whatever \<^verbatim>\<open>os.path.realpath\<close> returns, the resolved path begins with the characters
  of \<^verbatim>\<open>local_path\<close>.
\<close>

theorem resolve_local_path_prefix:
  assumes "local_path self = Inr lp"
  shows "\<exists>r. resolve_local_path os_path_realpath self path = Inr r \<and> startswith r lp"
  using assms
  by (simp add: resolve_local_path_def Let_def startswith_join lstrip_slash_relative)

theorem resolve_local_path_prefix_witness:
  "resolve_local_path (realpath_nolinks ''/'') example_running ''../../etc/passwd''
     = Inr ''/tmp/archr_mounts/c0ffee/tmp/etc/passwd''
   \<and> startswith ''/tmp/archr_mounts/c0ffee/tmp/etc/passwd'' ''/tmp/archr_mounts/c0ffee''"
proof -
  have l: "local_path example_running = Inr ''/tmp/archr_mounts/c0ffee''"
    by (simp add: local_path_def example_running_def example_container_def)
  have v: "resolve_local_path (realpath_nolinks ''/'') example_running ''../../etc/passwd''
     = Inr ''/tmp/archr_mounts/c0ffee/tmp/etc/passwd''"
    by (simp add: resolve_local_path_def l Let_def realpath_nolinks_def startswith_def
        os_path_join_def lstrip_slash_def split_slash_def)
  from resolve_local_path_prefix [OF l, of "realpath_nolinks ''/''" "''../../etc/passwd''"] v
  show ?thesis by simp
qed

text \<open>
  C1 at an input where it fails. The mount root of the example container is
  \<^verbatim>\<open>/tmp/archr_mounts/c0ffee\<close>. A path into the sibling directory
  \<^verbatim>\<open>/tmp/archr_mounts/c0ffee-other\<close> begins with the same characters, passes both
  \<^verbatim>\<open>startswith\<close> tests and is returned as it is, although it denotes a file outside the
  mount root.
\<close>

theorem resolve_local_path_sibling:
  "local_path example_running = Inr ''/tmp/archr_mounts/c0ffee''
   \<and> resolve_local_path (realpath_nolinks ''/'') example_running
         ''/tmp/archr_mounts/c0ffee-other/secret''
       = Inr ''/tmp/archr_mounts/c0ffee-other/secret''
   \<and> \<not> path_within ''/tmp/archr_mounts/c0ffee'' ''/tmp/archr_mounts/c0ffee-other/secret''"
  by (simp add: resolve_local_path_def local_path_def example_running_def example_container_def
        realpath_nolinks_def startswith_def path_within_def path_components_def split_slash_def
        Let_def)

section \<open>Retrieval on leaving the scope\<close>

lemma file_content_write:
  "file_content (local_file_write (FileObject p) b w) p = b @ drop (length b) (file_content w p)"
  by (simp add: local_file_write_def file_content_def)

lemma sink_content_write:
  "sink_content (local_file_write (WritableObject i) b w) i = sink_content w i @ b"
  by (simp add: local_file_write_def sink_content_def)

lemma example_foo_retrieved:
  assumes "archives w = (''/tmp/foo'', [example_foo]) # rest"
  shows "retrieve_file_contents ''/tmp/foo'' example_running w = Inr ''root:x:0:0:root:/root:/bin/sh''"
proof -
  have m: "getmember [example_foo] ''foo'' = Some (0, example_foo)"
    by (simp add: getmember_def example_foo_def)
  have r: "tartype example_foo = REGTYPE" "data example_foo = ''root:x:0:0:root:/root:/bin/sh''"
    by (simp_all add: example_foo_def)
  have b: "os_path_basename ''/tmp/foo'' = ''foo''"
    by (simp add: os_path_basename_def)
  show ?thesis
    by (simp add: retrieve_file_contents_def retrieve_tarball_contents_def example_running_def
          assms b extractfile_def m extractfile_member_regular [OF r(1)] r(2))
qed

text \<open>
  C7. Any \<^verbatim>\<open>local_thing\<close> that is neither a path, nor \<^verbatim>\<open>None\<close>, nor writable raises
  \<^verbatim>\<open>ValueError\<close>. For a path that can be opened, the path is yielded; for \<^verbatim>\<open>None\<close>, the
  name \<^verbatim>\<open>tempfile.mktemp()\<close> returns is yielded; for a writable object, the object is
  yielded. In each case, whether the scope body ends normally or raises, the contents
  retrieved for the target path when the scope is left are written to the destination:
  laid over the start of the file (which holds them exactly when the body left the file
  as it was opened), or appended to the writable object; and an exception of the body
  still propagates afterwards.
\<close>

theorem retrieval_context_writes_on_exit:
  "retrieval_context path OtherThing self body w = (Inl ValueError, w)
   \<and> (\<forall>p raised w2 b.
         p \<notin> set (unwritable w)
         \<and> body (YieldPath p) (w\<lparr>files := (p, []) # files w\<rparr>) = (raised, w2)
         \<and> retrieve_file_contents path self w2 = Inr b \<longrightarrow>
         retrieval_context path (PathThing p) self body w
           = (case raised of Some e \<Rightarrow> Inl e | None \<Rightarrow> Inr (),
              local_file_write (FileObject p) b w2)
         \<and> file_content (local_file_write (FileObject p) b w2) p
             = b @ drop (length b) (file_content w2 p))
   \<and> (\<forall>n ns raised w2 b.
         tmp_names w = n # ns \<and> n \<notin> set (unwritable w)
         \<and> body (YieldPath n) (w\<lparr>tmp_names := ns, files := (n, []) # files w\<rparr>) = (raised, w2)
         \<and> retrieve_file_contents path self w2 = Inr b \<longrightarrow>
         retrieval_context path NoneThing self body w
           = (case raised of Some e \<Rightarrow> Inl e | None \<Rightarrow> Inr (),
              local_file_write (FileObject n) b w2)
         \<and> file_content (local_file_write (FileObject n) b w2) n
             = b @ drop (length b) (file_content w2 n))
   \<and> (\<forall>i raised w2 b.
         body (YieldObject i) w = (raised, w2)
         \<and> retrieve_file_contents path self w2 = Inr b \<longrightarrow>
         retrieval_context path (WritableThing i) self body w
           = (case raised of Some e \<Rightarrow> Inl e | None \<Rightarrow> Inr (),
              local_file_write (WritableObject i) b w2)
         \<and> sink_content (local_file_write (WritableObject i) b w2) i = sink_content w2 i @ b)"
proof (intro conjI allI impI)
  show "retrieval_context path OtherThing self body w = (Inl ValueError, w)"
    by (simp add: retrieval_context_def)
next
  fix p raised w2 b
  assume "p \<notin> set (unwritable w)
         \<and> body (YieldPath p) (w\<lparr>files := (p, []) # files w\<rparr>) = (raised, w2)
         \<and> retrieve_file_contents path self w2 = Inr b"
  then show "retrieval_context path (PathThing p) self body w
           = (case raised of Some e \<Rightarrow> Inl e | None \<Rightarrow> Inr (),
              local_file_write (FileObject p) b w2)"
    by (simp add: retrieval_context_def open_wb_def)
next
  fix p raised w2 b
  show "file_content (local_file_write (FileObject p) b w2) p
             = b @ drop (length b) (file_content w2 p)"
    by (rule file_content_write)
next
  fix n ns raised w2 b
  assume "tmp_names w = n # ns \<and> n \<notin> set (unwritable w)
         \<and> body (YieldPath n) (w\<lparr>tmp_names := ns, files := (n, []) # files w\<rparr>) = (raised, w2)
         \<and> retrieve_file_contents path self w2 = Inr b"
  then show "retrieval_context path NoneThing self body w
           = (case raised of Some e \<Rightarrow> Inl e | None \<Rightarrow> Inr (),
              local_file_write (FileObject n) b w2)"
    by (simp add: retrieval_context_def open_wb_def tempfile_mktemp_def)
next
  fix n ns raised w2 b
  show "file_content (local_file_write (FileObject n) b w2) n
             = b @ drop (length b) (file_content w2 n)"
    by (rule file_content_write)
next
  fix i raised w2 b
  assume "body (YieldObject i) w = (raised, w2)
         \<and> retrieve_file_contents path self w2 = Inr b"
  then show "retrieval_context path (WritableThing i) self body w
           = (case raised of Some e \<Rightarrow> Inl e | None \<Rightarrow> Inr (),
              local_file_write (WritableObject i) b w2)"
    by (simp add: retrieval_context_def)
next
  fix i raised w2 b
  show "sink_content (local_file_write (WritableObject i) b w2) i = sink_content w2 i @ b"
    by (rule sink_content_write)
qed

theorem retrieval_context_writes_on_exit_witness:
  "fst (retrieval_context ''/tmp/foo'' NoneThing example_running example_copy example_files)
     = Inr ()
   \<and> file_content (snd (retrieval_context ''/tmp/foo'' NoneThing example_running example_copy
                           example_files)) ''/tmp/tmpa''
       = ''root:x:0:0:root:/root:/bin/sh''
   \<and> fst (retrieval_context ''/tmp/foo'' (PathThing ''/tmp/out'') example_running
             example_copy_then_raise example_files) = Inl ValueError
   \<and> file_content (snd (retrieval_context ''/tmp/foo'' (PathThing ''/tmp/out'') example_running
                           example_copy_then_raise example_files)) ''/tmp/out''
       = ''root:x:0:0:root:/root:/bin/sh''
   \<and> sink_content (snd (retrieval_context ''/tmp/foo'' (WritableThing 0) example_running
                           example_copy example_files)) 0
       = ''root:x:0:0:root:/root:/bin/sh''"
proof -
  let ?b = "''root:x:0:0:root:/root:/bin/sh''"
  have u: "unwritable example_files = []" and t: "tmp_names example_files = [''/tmp/tmpa'']"
    and f: "files example_files = []" and k: "sinks example_files = []"
    by (simp_all add: example_files_def example_mounted_def example_world_def)
  let ?w1 = "example_files\<lparr>tmp_names := [], files := (''/tmp/tmpa'', []) # files example_files\<rparr>"
  let ?w2 = "?w1\<lparr>archives := (''/tmp/foo'', [example_foo]) # archives ?w1\<rparr>"
  have b1: "example_copy (YieldPath ''/tmp/tmpa'') ?w1 = (None, ?w2)"
    by (simp add: example_copy_def)
  have g1: "retrieve_file_contents ''/tmp/foo'' example_running ?w2 = Inr ?b"
    by (rule example_foo_retrieved) simp
  have c1: "file_content ?w2 ''/tmp/tmpa'' = []" by (simp add: file_content_def f)
  have n: "retrieval_context ''/tmp/foo'' NoneThing example_running example_copy example_files
             = (Inr (), local_file_write (FileObject ''/tmp/tmpa'') ?b ?w2)
           \<and> file_content (local_file_write (FileObject ''/tmp/tmpa'') ?b ?w2) ''/tmp/tmpa''
               = ?b @ drop (length ?b) (file_content ?w2 ''/tmp/tmpa'')"
    using retrieval_context_writes_on_exit
      [of "''/tmp/foo''" example_running example_copy example_files,
       THEN conjunct2, THEN conjunct2, THEN conjunct1, rule_format,
       of "''/tmp/tmpa''" "[]" None ?w2 ?b]
      b1 g1 t u
    by simp
  have n1: "fst (retrieval_context ''/tmp/foo'' NoneThing example_running example_copy
                   example_files) = Inr ()"
    by (simp only: n [THEN conjunct1] fst_conv)
  have n2: "file_content (snd (retrieval_context ''/tmp/foo'' NoneThing example_running
                   example_copy example_files)) ''/tmp/tmpa'' = ?b"
    by (simp only: n [THEN conjunct1] snd_conv n [THEN conjunct2] c1 drop_Nil append_Nil2)
  let ?v1 = "example_files\<lparr>files := (''/tmp/out'', []) # files example_files\<rparr>"
  let ?v2 = "?v1\<lparr>archives := (''/tmp/foo'', [example_foo]) # archives ?v1\<rparr>"
  have b2: "example_copy_then_raise (YieldPath ''/tmp/out'') ?v1 = (Some ValueError, ?v2)"
    by (simp add: example_copy_then_raise_def)
  have g2: "retrieve_file_contents ''/tmp/foo'' example_running ?v2 = Inr ?b"
    by (rule example_foo_retrieved) simp
  have c2: "file_content ?v2 ''/tmp/out'' = []" by (simp add: file_content_def f)
  have p: "retrieval_context ''/tmp/foo'' (PathThing ''/tmp/out'') example_running
             example_copy_then_raise example_files
             = (Inl ValueError, local_file_write (FileObject ''/tmp/out'') ?b ?v2)
           \<and> file_content (local_file_write (FileObject ''/tmp/out'') ?b ?v2) ''/tmp/out''
               = ?b @ drop (length ?b) (file_content ?v2 ''/tmp/out'')"
    using retrieval_context_writes_on_exit
      [of "''/tmp/foo''" example_running example_copy_then_raise example_files,
       THEN conjunct2, THEN conjunct1, rule_format,
       of "''/tmp/out''" "Some ValueError" ?v2 ?b]
      b2 g2 u
    by simp
  have p1: "fst (retrieval_context ''/tmp/foo'' (PathThing ''/tmp/out'') example_running
                   example_copy_then_raise example_files) = Inl ValueError"
    by (simp only: p [THEN conjunct1] fst_conv)
  have p2: "file_content (snd (retrieval_context ''/tmp/foo'' (PathThing ''/tmp/out'')
                   example_running example_copy_then_raise example_files)) ''/tmp/out'' = ?b"
    by (simp only: p [THEN conjunct1] snd_conv p [THEN conjunct2] c2 drop_Nil append_Nil2)
  let ?s2 = "example_files\<lparr>archives := (''/tmp/foo'', [example_foo]) # archives example_files\<rparr>"
  have b3: "example_copy (YieldObject 0) example_files = (None, ?s2)"
    by (simp add: example_copy_def)
  have g3: "retrieve_file_contents ''/tmp/foo'' example_running ?s2 = Inr ?b"
    by (rule example_foo_retrieved) simp
  have c3: "sink_content ?s2 0 = []" by (simp add: sink_content_def k)
  have s: "retrieval_context ''/tmp/foo'' (WritableThing 0) example_running example_copy
             example_files
             = (Inr (), local_file_write (WritableObject 0) ?b ?s2)
           \<and> sink_content (local_file_write (WritableObject 0) ?b ?s2) 0
               = sink_content ?s2 0 @ ?b"
    using retrieval_context_writes_on_exit
      [of "''/tmp/foo''" example_running example_copy example_files,
       THEN conjunct2, THEN conjunct2, THEN conjunct2, rule_format,
       of 0 None ?s2 ?b]
      b3 g3
    by simp
  have s2: "sink_content (snd (retrieval_context ''/tmp/foo'' (WritableThing 0) example_running
                   example_copy example_files)) 0 = ?b"
    by (simp only: s [THEN conjunct1] snd_conv s [THEN conjunct2] c3 append_Nil)
  from n1 n2 p1 p2 s2 show ?thesis by (intro conjI)
qed

section \<open>Further properties of the lifecycle\<close>

lemma py_or_idem: "py_or (py_or x d) d = py_or x d"
  by (simp add: py_or_def)

text \<open>
  A second \<^verbatim>\<open>build\<close> after a successful one, with the daemon's images unchanged,
  succeeds and changes nothing: the values it computed the first time are kept.
\<close>

theorem build_again_changes_nothing:
  assumes "build self w = (Inr (), self', w')"
  shows "build self' w' = (Inr (), self', w')"
proof -
  from assms obtain img where img: "map_of (images w) (image_id self) = Some img"
    by (cases "map_of (images w) (image_id self)") (simp_all add: build_def)
  let ?d = "Some (or_empty (Entrypoint (Config img)) @ or_empty (Cmd (Config img)))"
  let ?s3 = "self\<lparr>image_obj := Some img, target_args := py_or (target_args self) ?d,
                   target_env := py_or (target_env self) (Env (Config img))\<rparr>"
  have w: "w' = w" using assms img
    by (auto simp: build_def Let_def split: if_splits option.splits list.splits)
  show ?thesis
  proof (cases "truthy (target_path self)")
    case True
    with assms img have s: "self' = ?s3" by (simp add: build_def Let_def)
    show ?thesis unfolding w s using img True
      by (simp add: build_def Let_def py_or_idem)
  next
    case False
    with assms img obtain a rest where ar: "py_or (target_args self) ?d = Some (a # rest)"
      and s: "self' = ?s3\<lparr>target_path := Some a\<rparr>"
      by (auto simp: build_def Let_def split: option.splits list.splits)
    have k: "py_or (Some (a # rest)) ?d = Some (a # rest)"
      by (simp add: py_or_def truthy_simps)
    show ?thesis unfolding w s using img ar
      by (simp add: build_def Let_def py_or_idem k)
  qed
qed

theorem build_again_changes_nothing_witness:
  "build (init ''archr-test:entrypoint-env'' None None None) example_world
     = (Inr (), example_built, example_world)
   \<and> build example_built example_world = (Inr (), example_built, example_world)"
proof -
  have h: "build (init ''archr-test:entrypoint-env'' None None None) example_world
              = (Inr (), example_built, example_world)"
    by (simp add: build_def init_def example_world_def example_image_def example_built_def
          Let_def py_or_def truthy_def or_empty_def)
  from h build_again_changes_nothing [OF h] show ?thesis by (rule conjI)
qed

text \<open>
  The mount directory through \<^verbatim>\<open>start\<close> and \<^verbatim>\<open>stop\<close>: after a successful \<^verbatim>\<open>start\<close>
  the directory \<^verbatim>\<open>local_path\<close> exists on the host, and after a successful \<^verbatim>\<open>stop\<close>
  it does not.
\<close>

theorem mount_round_trip:
  assumes "start (Inr c) self w = (Inr (), self1, w1)"
    and "stop kill_reply self1 w1 = (Inr (), self2, w2)"
  shows "local_path self1 = Inr (''/tmp/archr_mounts/'' @ cid c)
       \<and> ''/tmp/archr_mounts/'' @ cid c \<in> set (dirs w1)
       \<and> ''/tmp/archr_mounts/'' @ cid c \<notin> set (dirs w2)"
proof -
  let ?lp = "''/tmp/archr_mounts/'' @ cid c"
  from assms(1) have s1: "self1 = self\<lparr>container := Some c\<rparr>" by (rule start_container)
  then have l: "local_path self1 = Inr ?lp" by (simp add: local_path_def)
  from assms(1) have d1: "?lp \<in> set (dirs w1)"
    by (auto simp: start_def Let_def local_path_def merged_path_def os_makedirs_def
          os_system_mount_def split: option.splits sum.splits if_splits)
  from assms(2) obtain c' where c': "container self1 = Some c'"
    and w2: "w2 = w1\<lparr>mounts := remove1 (''/tmp/archr_mounts/'' @ cid c') (mounts w1),
                 dirs := removeAll (''/tmp/archr_mounts/'' @ cid c') (dirs w1)\<rparr>"
    by (rule stop_Inr)
  from c' s1 have "c' = c" by simp
  with w2 have "?lp \<notin> set (dirs w2)" by simp
  with l d1 show ?thesis by blast
qed

theorem mount_round_trip_witness:
  "start (Inr example_container) example_built example_world
     = (Inr (), example_running, example_mounted)
   \<and> stop None example_running example_mounted = (Inr (), example_running, example_world)
   \<and> ''/tmp/archr_mounts/c0ffee'' \<in> set (dirs example_mounted)
   \<and> ''/tmp/archr_mounts/c0ffee'' \<notin> set (dirs example_world)"
proof -
  have i: "''/tmp/archr_mounts/'' @ cid example_container = ''/tmp/archr_mounts/c0ffee''"
    by (simp add: example_container_def)
  from mount_round_trip [OF start_example stop_example, unfolded i] start_example stop_example
  show ?thesis by blast
qed

end
